theory Spec2Isabelle
  imports Complex_Main
begin

section \<open>Live MODIS aerosol optical depth: a model of \<open>src/modis_live.py\<close>\<close>

text \<open>
  The module geocodes a city, searches the granule catalogue, downloads the granule
  into a cache directory and reads the aerosol optical depth nearest to the city.
  Every function of the module is a definition below, under the name it has in the
  source (a leading underscore is dropped). The outside world (environment
  variables, the geocoder, the two HTTP servers, the file system, the clock) is a
  record that the functions take and return; every network request is appended to
  its \<open>calls\<close>.

  Numbers: a Python float and a \<open>numpy.float32\<close> cell are real numbers here, with
  one extra value for NaN. Rounding to 32 bits and the infinities are outside the
  model.
\<close>

subsection \<open>Exceptions\<close>

text \<open>
  \<open>ModisLiveError\<close> is the only exception class of the module; its message tells
  the failures apart. The other constructors are the exceptions of the libraries the
  module calls.
\<close>

datatype error =
    ModisLiveError string
  | HTTPError nat
  | RequestException
  | JSONDecodeError
  | ValueError
  | IndexError
  | HDF4Error
  | OSError
  | OverflowError

subsection \<open>Dates\<close>

text \<open>
  A \<open>datetime\<close> object. \<open>tzinfo\<close> is the offset from UTC in minutes, \<open>None\<close> for
  a naive value.
\<close>

record datetime =
  year :: nat
  month :: nat
  day :: nat
  hour :: nat
  minute :: nat
  second :: nat
  microsecond :: nat
  tzinfo :: "int option"

definition is_leap :: "nat \<Rightarrow> bool" where
  "is_leap y = (y mod 4 = 0 \<and> (y mod 100 \<noteq> 0 \<or> y mod 400 = 0))"

definition days_in_month :: "nat \<Rightarrow> nat \<Rightarrow> nat" where
  "days_in_month y m =
     (if m = 2 then (if is_leap y then 29 else 28)
      else if m = 4 \<or> m = 6 \<or> m = 9 \<or> m = 11 then 30 else 31)"

definition valid_datetime :: "datetime \<Rightarrow> bool" where
  "valid_datetime d =
     (1 \<le> year d \<and> year d \<le> 9999 \<and> 1 \<le> month d \<and> month d \<le> 12 \<and>
      1 \<le> day d \<and> day d \<le> days_in_month (year d) (month d) \<and>
      hour d < 24 \<and> minute d < 60 \<and> second d < 60 \<and> microsecond d < 1000000 \<and>
      (case tzinfo d of None \<Rightarrow> True | Some off \<Rightarrow> - 1440 < off \<and> off < 1440))"

text \<open>The proleptic Gregorian ordinal of a date, as CPython's \<open>_ymd2ord\<close> computes it.\<close>

definition days_before_year :: "nat \<Rightarrow> nat" where
  "days_before_year y =
     (let z = y - 1 in z * 365 + z div 4 - z div 100 + z div 400)"

definition days_before_month :: "nat \<Rightarrow> nat \<Rightarrow> nat" where
  "days_before_month y m =
     [0, 0, 31, 59, 90, 120, 151, 181, 212, 243, 273, 304, 334] ! m
       + (if 2 < m \<and> is_leap y then 1 else 0)"

definition toordinal :: "datetime \<Rightarrow> nat" where
  "toordinal d = days_before_year (year d) + days_before_month (year d) (month d) + day d"

text \<open>
  The instant a datetime denotes, in microseconds of UTC since the start of ordinal
  day 0. A naive datetime is read as UTC, which is how \<open>time_window\<close> reads it.
\<close>

definition instant :: "datetime \<Rightarrow> int" where
  "instant d =
     (((int (toordinal d) * 24 + int (hour d)) * 60 + int (minute d)
        - (case tzinfo d of None \<Rightarrow> 0 | Some off \<Rightarrow> off)) * 60 + int (second d)) * 1000000
      + int (microsecond d)"

text \<open>\<open>datetime(y, m, d, tzinfo=timezone.utc)\<close>.\<close>

definition datetime_utc :: "nat \<Rightarrow> nat \<Rightarrow> nat \<Rightarrow> datetime" where
  "datetime_utc y m d =
     \<lparr>year = y, month = m, day = d, hour = 0, minute = 0, second = 0,
      microsecond = 0, tzinfo = Some 0\<rparr>"

text \<open>
  \<open>d + timedelta(days=1)\<close>: the same time on the next calendar day, and
  \<open>OverflowError\<close> past the last day of year 9999.
\<close>

definition add_one_day :: "datetime \<Rightarrow> error + datetime" where
  "add_one_day d =
     (if day d < days_in_month (year d) (month d) then Inr (d\<lparr>day := day d + 1\<rparr>)
      else if month d < 12 then Inr (d\<lparr>month := month d + 1, day := 1\<rparr>)
      else if year d < 9999 then Inr (d\<lparr>year := year d + 1, month := 1, day := 1\<rparr>)
      else Inl OverflowError)"

definition digit :: "nat \<Rightarrow> char" where
  "digit n = ''0123456789'' ! (n mod 10)"

definition pad2 :: "nat \<Rightarrow> string" where
  "pad2 n = [digit (n div 10), digit n]"

definition pad4 :: "nat \<Rightarrow> string" where
  "pad4 n = [digit (n div 1000), digit (n div 100), digit (n div 10), digit n]"

definition pad6 :: "nat \<Rightarrow> string" where
  "pad6 n = [digit (n div 100000), digit (n div 10000), digit (n div 1000),
             digit (n div 100), digit (n div 10), digit n]"

text \<open>\<open>datetime.isoformat()\<close>, for offsets of whole minutes.\<close>

definition isoformat :: "datetime \<Rightarrow> string" where
  "isoformat d =
     pad4 (year d) @ ''-'' @ pad2 (month d) @ ''-'' @ pad2 (day d) @ ''T'' @
     pad2 (hour d) @ '':'' @ pad2 (minute d) @ '':'' @ pad2 (second d) @
     (if microsecond d = 0 then '''' else ''.'' @ pad6 (microsecond d)) @
     (case tzinfo d of
        None \<Rightarrow> ''''
      | Some off \<Rightarrow>
          (if off < 0 then ''-'' else ''+'') @ pad2 (nat \<bar>off\<bar> div 60) @ '':'' @
          pad2 (nat \<bar>off\<bar> mod 60))"

text \<open>
  Lines 42 to 45 of \<open>_time_window\<close>: the two ends of the window. The second argument
  is what \<open>datetime.now(timezone.utc)\<close> returns.
\<close>

definition window_bounds :: "datetime option \<Rightarrow> datetime \<Rightarrow> error + (datetime \<times> datetime)" where
  "window_bounds date now =
     (let d = (case date of None \<Rightarrow> now | Some d \<Rightarrow> d);
          start = datetime_utc (year d) (month d) (day d)
      in case add_one_day start of
           Inl e \<Rightarrow> Inl e
         | Inr end_dt \<Rightarrow> Inr (start, end_dt))"

definition time_window :: "datetime option \<Rightarrow> datetime \<Rightarrow> error + string" where
  "time_window date now =
     (case window_bounds date now of
        Inl e \<Rightarrow> Inl e
      | Inr (start, end_dt) \<Rightarrow> Inr (isoformat start @ '','' @ isoformat end_dt))"

subsection \<open>Strings and dictionaries\<close>

text \<open>\<open>d.get(k, default)\<close>.\<close>

definition dict_get :: "('k \<rightharpoonup> 'v) \<Rightarrow> 'k \<Rightarrow> 'v \<Rightarrow> 'v" where
  "dict_get d k dflt = (case d k of None \<Rightarrow> dflt | Some v \<Rightarrow> v)"

text \<open>\<open>s.split(c)\<close> for a separator of one character: never the empty list.\<close>

fun split_on :: "char \<Rightarrow> string \<Rightarrow> string list" where
  "split_on c [] = [[]]"
| "split_on c (x # xs) =
     (if x = c then [] # split_on c xs
      else (case split_on c xs of
              [] \<Rightarrow> [[x]]
            | y # ys \<Rightarrow> (x # y) # ys))"

definition endswith :: "string \<Rightarrow> string \<Rightarrow> bool" where
  "endswith s suf = (length suf \<le> length s \<and> drop (length s - length suf) s = suf)"

subsection \<open>Search results\<close>

text \<open>
  A link of a catalogue entry is a dictionary of strings. An entry is a dictionary
  too; its three keys have different types, so it is a record whose absent keys are
  \<open>None\<close>.
\<close>

type_synonym link = "string \<rightharpoonup> string"

record entry =
  title :: "string option"
  time_start :: "string option"
  links :: "link list option"

record granule =
  granule_id :: string
  granule_time_start :: string
  download_url :: string

text \<open>The first loop of \<open>search_granule\<close> (lines 68 to 72): the value of \<open>url\<close> after it.\<close>

fun first_hdf :: "link list \<Rightarrow> string" where
  "first_hdf [] = []"
| "first_hdf (l # ls) =
     (let href = dict_get l ''href'' []
      in if endswith href ''.hdf'' then href else first_hdf ls)"

text \<open>The second loop (lines 74 to 77), run when the first left \<open>url\<close> empty.\<close>

fun first_data :: "link list \<Rightarrow> string" where
  "first_data [] = []"
| "first_data (l # ls) =
     (if endswith (dict_get l ''rel'' []) ''/data#'' then dict_get l ''href'' []
      else first_data ls)"

text \<open>Lines 65 to 85 of \<open>search_granule\<close>: from the top entry to the granule.\<close>

definition granule_of_entry :: "entry \<Rightarrow> error + granule" where
  "granule_of_entry e =
     (let ls = (case links e of None \<Rightarrow> [] | Some ls \<Rightarrow> ls);
          url = first_hdf ls;
          url = (if url = [] then first_data ls else url)
      in if url = []
         then Inl (ModisLiveError ''No downloadable HDF link found for MODIS granule.'')
         else Inr \<lparr>granule_id = (case title e of None \<Rightarrow> [] | Some t \<Rightarrow> t),
                   granule_time_start = (case time_start e of None \<Rightarrow> [] | Some t \<Rightarrow> t),
                   download_url = url\<rparr>)"

subsection \<open>Rasters\<close>

datatype float = Fin real | NaN

text \<open>
  A two-dimensional numpy array: its shape (rows, columns) and its cells in row-major
  order.
\<close>

record ndarray =
  shape :: "nat \<times> nat"
  cells :: "float list"

definition wf_ndarray :: "ndarray \<Rightarrow> bool" where
  "wf_ndarray a = (length (cells a) = fst (shape a) * snd (shape a))"

text \<open>A scientific dataset of an HDF4 file, and the file: its datasets by name.\<close>

record sds =
  sds_cells :: ndarray
  sds_attributes :: "string \<rightharpoonup> real"

type_synonym sd = "string \<rightharpoonup> sds"

text \<open>\<open>x * scale + offset\<close>, \<open>x - t\<close>, \<open>x ** 2\<close> and \<open>x + y\<close> on cells; NaN stays NaN.\<close>

fun scale_cell :: "real \<Rightarrow> real \<Rightarrow> float \<Rightarrow> float" where
  "scale_cell s off (Fin v) = Fin (v * s + off)"
| "scale_cell s off NaN = NaN"

fun fsub :: "real \<Rightarrow> float \<Rightarrow> float" where
  "fsub t (Fin v) = Fin (v - t)"
| "fsub t NaN = NaN"

fun fsquare :: "float \<Rightarrow> float" where
  "fsquare (Fin v) = Fin (v ^ 2)"
| "fsquare NaN = NaN"

fun fadd :: "float \<Rightarrow> float \<Rightarrow> float" where
  "fadd (Fin a) (Fin b) = Fin (a + b)"
| "fadd _ _ = NaN"

definition apply_scale :: "ndarray \<Rightarrow> (string \<rightharpoonup> real) \<Rightarrow> ndarray" where
  "apply_scale dat attrs =
     (let scale = dict_get attrs ''scale_factor'' 1;
          offset = dict_get attrs ''add_offset'' 0
      in dat\<lparr>cells := map (scale_cell scale offset) (cells dat)\<rparr>)"

text \<open>\<open>np.where(aod == fill, np.nan, aod)\<close>; a NaN cell equals nothing and stays NaN.\<close>

definition mask_fill :: "real \<Rightarrow> ndarray \<Rightarrow> ndarray" where
  "mask_fill fill aod =
     aod\<lparr>cells := map (\<lambda>x. if x = Fin fill then NaN else x) (cells aod)\<rparr>"

text \<open>\<open>(arr - t) ** 2\<close>.\<close>

definition sq_diff :: "ndarray \<Rightarrow> real \<Rightarrow> ndarray" where
  "sq_diff arr t = arr\<lparr>cells := map (\<lambda>x. fsquare (fsub t x)) (cells arr)\<rparr>"

text \<open>
  \<open>a + b\<close> with numpy's broadcasting of two-dimensional arrays: along each axis the
  lengths are equal or one of them is 1, else \<open>ValueError\<close>.
\<close>

definition bc_dim :: "nat \<Rightarrow> nat \<Rightarrow> nat option" where
  "bc_dim m n = (if m = n then Some m else if m = 1 then Some n else if n = 1 then Some m else None)"

definition bc_cell :: "ndarray \<Rightarrow> nat \<Rightarrow> nat \<Rightarrow> float" where
  "bc_cell a i j =
     cells a ! ((if fst (shape a) = 1 then 0 else i) * snd (shape a)
                 + (if snd (shape a) = 1 then 0 else j))"

definition add_arrays :: "ndarray \<Rightarrow> ndarray \<Rightarrow> error + ndarray" where
  "add_arrays a b =
     (case (bc_dim (fst (shape a)) (fst (shape b)), bc_dim (snd (shape a)) (snd (shape b))) of
        (Some r, Some c) \<Rightarrow>
          Inr \<lparr>shape = (r, c),
               cells = concat (map (\<lambda>i. map (\<lambda>j. fadd (bc_cell a i j) (bc_cell b i j)) [0..<c]) [0..<r])\<rparr>
      | _ \<Rightarrow> Inl ValueError)"

text \<open>
  \<open>np.nanargmin\<close> on the flattened array: the index of the first smallest cell that
  is not NaN, and \<open>ValueError\<close> when there is none (an empty or an all-NaN array).
  \<open>nanargmin_from i best xs\<close> scans \<open>xs\<close>, whose first cell has index \<open>i\<close>, with the
  best index and value found so far.
\<close>

fun nanargmin_from :: "nat \<Rightarrow> (nat \<times> real) option \<Rightarrow> float list \<Rightarrow> (nat \<times> real) option" where
  "nanargmin_from i best [] = best"
| "nanargmin_from i best (NaN # xs) = nanargmin_from (Suc i) best xs"
| "nanargmin_from i None (Fin v # xs) = nanargmin_from (Suc i) (Some (i, v)) xs"
| "nanargmin_from i (Some (k, m)) (Fin v # xs) =
     nanargmin_from (Suc i) (if v < m then Some (i, v) else Some (k, m)) xs"

definition nanargmin :: "float list \<Rightarrow> error + nat" where
  "nanargmin xs =
     (case nanargmin_from 0 None xs of None \<Rightarrow> Inl ValueError | Some (k, _) \<Rightarrow> Inr k)"

text \<open>\<open>np.unravel_index(k, shape)\<close> for a flat index inside the shape.\<close>

definition unravel_index :: "nat \<Rightarrow> nat \<times> nat \<Rightarrow> nat \<times> nat" where
  "unravel_index k shp = (k div snd shp, k mod snd shp)"

text \<open>\<open>a[idx]\<close> for a pair of indices that are not negative.\<close>

definition getitem :: "ndarray \<Rightarrow> nat \<times> nat \<Rightarrow> error + float" where
  "getitem a idx =
     (if fst idx < fst (shape a) \<and> snd idx < snd (shape a)
      then Inr (cells a ! (fst idx * snd (shape a) + snd idx))
      else Inl IndexError)"

subsection \<open>The result record, files and the world\<close>

record reading =
  city :: string
  date :: string
  latitude :: real
  longitude :: real
  modis_aod :: real
  reading_granule_id :: string
  source_url :: string

text \<open>
  A relative path is the list of its components. A file holds what was written to
  it: a downloaded body, which is an HDF4 file or something else, or a CSV row.
\<close>

type_synonym path = "string list"

datatype content = Hdf sd | Bytes string | Csv reading

datatype node = Dir | File content

text \<open>\<open>p / name\<close> for a name without a slash: pathlib drops an empty or \<open>.\<close> component.\<close>

definition path_join :: "path \<Rightarrow> string \<Rightarrow> path" where
  "path_join p name = (if name = [] \<or> name = ''.'' then p else p @ [name])"

text \<open>
  What the file system makes of a path: \<open>..\<close> leaves the directory before it.
  The empty path is the working directory.
\<close>

definition resolve :: "path \<Rightarrow> path" where
  "resolve p =
     foldl (\<lambda>acc c. if c = ''..'' \<and> acc \<noteq> [] \<and> last acc \<noteq> ''..'' then butlast acc else acc @ [c]) [] p"

definition path_exists :: "(path \<rightharpoonup> node) \<Rightarrow> path \<Rightarrow> bool" where
  "path_exists f p =
     (resolve p = [] \<or> (case f (resolve p) of None \<Rightarrow> False | Some _ \<Rightarrow> True))"

text \<open>
  \<open>p.mkdir(parents=True, exist_ok=True)\<close>: every missing directory on the way is
  made; a file in the way is an \<open>OSError\<close>, and then nothing is made.
  \<open>mkdir_from pre cs f\<close> goes down the components \<open>cs\<close> below the directory \<open>pre\<close>.
\<close>

fun mkdir_from :: "path \<Rightarrow> string list \<Rightarrow> (path \<rightharpoonup> node) \<Rightarrow> error + (path \<rightharpoonup> node)" where
  "mkdir_from pre [] f = Inr f"
| "mkdir_from pre (c # cs) f =
     (case f (pre @ [c]) of
        Some Dir \<Rightarrow> mkdir_from (pre @ [c]) cs f
      | Some (File _) \<Rightarrow> Inl OSError
      | None \<Rightarrow> mkdir_from (pre @ [c]) cs (f(pre @ [c] \<mapsto> Dir)))"

definition mkdir_parents :: "path \<Rightarrow> (path \<rightharpoonup> node) \<Rightarrow> error + (path \<rightharpoonup> node)" where
  "mkdir_parents p f = mkdir_from [] (resolve p) f"

text \<open>
  The query of the granule search. The bounding box is kept as four numbers; the
  source formats them into one comma-separated string.
\<close>

record search_params =
  short_name :: string
  temporal :: string
  bounding_box :: "real \<times> real \<times> real \<times> real"
  page_size :: nat
  sort_key :: string

text \<open>
  What a server answers. A search answers with a status and a body, which is the
  list under \<open>feed.entry\<close> (empty when a key is absent) or not JSON at all. A
  download answers with a status and a body; the stream may break after a part of
  the body has arrived. Either request may fail before any answer (a timeout, no
  connection).
\<close>

datatype search_response = SearchFailed | SearchResponse nat "entry list option"

datatype download_response =
    DownloadFailed
  | DownloadResponse nat content
  | DownloadTruncated nat content

datatype call =
    GeocodeCall string
  | SearchCall search_params
  | DownloadCall string "string \<times> string"

record world =
  env :: "string \<rightharpoonup> string"
  now_utc :: datetime
  nominatim :: "string \<Rightarrow> (real \<times> real) option"
  cmr :: "search_params \<Rightarrow> search_response"
  earthdata :: "string \<Rightarrow> string \<times> string \<Rightarrow> download_response"
  fs :: "path \<rightharpoonup> node"
  pyhdf :: bool
  calls :: "call list"

definition SHORT_NAME :: string where
  "SHORT_NAME = ''MOD04_L2''"

definition CACHE_DIR :: path where
  "CACHE_DIR = [''data'', ''modis_cache'']"

text \<open>\<open>resp.raise_for_status()\<close>: an \<open>HTTPError\<close> for a status from 400 to 599.\<close>

definition raise_for_status :: "nat \<Rightarrow> error + unit" where
  "raise_for_status st = (if 400 \<le> st \<and> st < 600 then Inl (HTTPError st) else Inr ())"

subsection \<open>The functions of the module\<close>

text \<open>\<open>not x\<close> for what \<open>os.getenv\<close> returns: unset or empty.\<close>

definition falsy :: "string option \<Rightarrow> bool" where
  "falsy x = (case x of None \<Rightarrow> True | Some s \<Rightarrow> s = [])"

definition earthdata_auth :: "world \<Rightarrow> error + (string \<times> string)" where
  "earthdata_auth w =
     (let username = env w ''EARTHDATA_USERNAME'';
          password = env w ''EARTHDATA_PASSWORD''
      in if falsy username \<or> falsy password
         then Inl (ModisLiveError
                ''EARTHDATA_USERNAME and EARTHDATA_PASSWORD are required for live MODIS.'')
         else Inr (dict_get (env w) ''EARTHDATA_USERNAME'' [],
                   dict_get (env w) ''EARTHDATA_PASSWORD'' []))"


definition search_granule ::
  "world \<Rightarrow> real \<Rightarrow> real \<Rightarrow> datetime option \<Rightarrow> (error + granule) \<times> world" where
  "search_granule w lat lon dt =
     (let bbox = (lon - 1 / 2, lat - 1 / 2, lon + 1 / 2, lat + 1 / 2)
      in case time_window dt (now_utc w) of
           Inl e \<Rightarrow> (Inl e, w)
         | Inr tw \<Rightarrow>
             (let params = \<lparr>short_name = SHORT_NAME, temporal = tw, bounding_box = bbox,
                            page_size = 1, sort_key = ''-start_date''\<rparr>;
                  w' = w\<lparr>calls := calls w @ [SearchCall params]\<rparr>
              in (case cmr w params of
                    SearchFailed \<Rightarrow> Inl RequestException
                  | SearchResponse st body \<Rightarrow>
                      (case raise_for_status st of
                         Inl e \<Rightarrow> Inl e
                       | Inr _ \<Rightarrow>
                           (case body of
                              None \<Rightarrow> Inl JSONDecodeError
                            | Some [] \<Rightarrow>
                                Inl (ModisLiveError
                                  ''No MODIS granules found for this location/date.'')
                            | Some (e # _) \<Rightarrow> granule_of_entry e)),
                  w')))"

definition download_granule ::
  "world \<Rightarrow> string \<Rightarrow> string \<times> string \<Rightarrow> (error + path) \<times> world" where
  "download_granule w url auth =
     (case mkdir_parents CACHE_DIR (fs w) of
        Inl e \<Rightarrow> (Inl e, w)
      | Inr f \<Rightarrow>
          (let w1 = w\<lparr>fs := f\<rparr>;
               filename = last (split_on CHR ''/'' (hd (split_on CHR ''?'' url)));
               out_path = path_join CACHE_DIR filename
           in if path_exists (fs w1) out_path then (Inr out_path, w1)
              else
                (let w2 = w1\<lparr>calls := calls w1 @ [DownloadCall url auth]\<rparr>;
                     written = (\<lambda>body. w2\<lparr>fs := (fs w2)(resolve out_path \<mapsto> File body)\<rparr>)
                 in case earthdata w url auth of
                      DownloadFailed \<Rightarrow> (Inl RequestException, w2)
                    | DownloadResponse st body \<Rightarrow>
                        if st = 401
                        then (Inl (ModisLiveError ''Earthdata authentication failed (401).''), w2)
                        else (case raise_for_status st of
                                Inl e \<Rightarrow> (Inl e, w2)
                              | Inr _ \<Rightarrow> (Inr out_path, written body))
                    | DownloadTruncated st body \<Rightarrow>
                        if st = 401
                        then (Inl (ModisLiveError ''Earthdata authentication failed (401).''), w2)
                        else (case raise_for_status st of
                                Inl e \<Rightarrow> (Inl e, w2)
                              | Inr _ \<Rightarrow> (Inl RequestException, written body)))))"

definition read_aod_from_hdf :: "world \<Rightarrow> path \<Rightarrow> real \<Rightarrow> real \<Rightarrow> error + real" where
  "read_aod_from_hdf w hdf_path lat lon =
     (if \<not> pyhdf w
      then Inl (ModisLiveError ''pyhdf is required to read MODIS HDF4 files. Install pyhdf.'')
      else
        (case fs w (resolve hdf_path) of
           Some (File (Hdf hdf)) \<Rightarrow>
             (case hdf ''Optical_Depth_Land_And_Ocean'' of
                None \<Rightarrow> Inl HDF4Error
              | Some aod_ds \<Rightarrow>
                  (let aod = apply_scale (sds_cells aod_ds) (sds_attributes aod_ds)
                   in case hdf ''Latitude'' of
                        None \<Rightarrow> Inl HDF4Error
                      | Some lat_ds \<Rightarrow>
                          (case hdf ''Longitude'' of
                             None \<Rightarrow> Inl HDF4Error
                           | Some lon_ds \<Rightarrow>
                               (let lat_arr = sds_cells lat_ds;
                                    lon_arr = sds_cells lon_ds;
                                    aod = (case sds_attributes aod_ds ''_FillValue'' of
                                             None \<Rightarrow> aod
                                           | Some fill \<Rightarrow> mask_fill fill aod)
                                in case add_arrays (sq_diff lat_arr lat) (sq_diff lon_arr lon) of
                                     Inl e \<Rightarrow> Inl e
                                   | Inr dists \<Rightarrow>
                                       (case nanargmin (cells dists) of
                                          Inl e \<Rightarrow> Inl e
                                        | Inr k \<Rightarrow>
                                            (case getitem aod (unravel_index k (shape dists)) of
                                               Inl e \<Rightarrow> Inl e
                                             | Inr NaN \<Rightarrow>
                                                 Inl (ModisLiveError
                                                   ''MODIS AOD is missing at the nearest pixel.'')
                                             | Inr (Fin v) \<Rightarrow> Inr v))))))
         | _ \<Rightarrow> Inl HDF4Error))"


subsection \<open>Names for what the claims speak about\<close>

text \<open>
  The array \<open>aod\<close> of \<open>read_aod_from_hdf\<close> after line 133: scaled at line 124, then
  masked where the dataset has a \<open>_FillValue\<close>. A cell is marked missing when it is
  \<open>NaN\<close> in this array.
\<close>

definition masked_aod :: "sds \<Rightarrow> ndarray" where
  "masked_aod aod_ds =
     (let aod = apply_scale (sds_cells aod_ds) (sds_attributes aod_ds)
      in case sds_attributes aod_ds ''_FillValue'' of
           None \<Rightarrow> aod
         | Some fill \<Rightarrow> mask_fill fill aod)"





text \<open>
  The two tests of the link loops: the URL of a link, whether it ends in \<open>.hdf\<close>, and
  whether the relation tag of the link ends in \<open>/data#\<close>.
\<close>

definition href_of :: "link \<Rightarrow> string" where
  "href_of l = dict_get l ''href'' []"

definition is_hdf_link :: "link \<Rightarrow> bool" where
  "is_hdf_link l = endswith (dict_get l ''href'' []) ''.hdf''"

definition is_data_link :: "link \<Rightarrow> bool" where
  "is_data_link l = endswith (dict_get l ''rel'' []) ''/data#''"

definition no_link_msg :: string where
  "no_link_msg = ''No downloadable HDF link found for MODIS granule.''"

text \<open>
  The file name \<open>download_granule\<close> derives from a URL (line 90) and the path of the
  cached file (line 91).
\<close>

definition cache_key :: "string \<Rightarrow> string" where
  "cache_key url = last (split_on CHR ''/'' (hd (split_on CHR ''?'' url)))"

definition cache_path :: "string \<Rightarrow> path" where
  "cache_path url = path_join CACHE_DIR (cache_key url)"


definition auth_msg :: string where
  "auth_msg = ''Earthdata authentication failed (401).''"


text \<open>
  The offset of a datetime from UTC in microseconds, 0 for a naive one, and the
  length of a day in microseconds.
\<close>

definition utcoffset_us :: "datetime \<Rightarrow> int" where
  "utcoffset_us d = (case tzinfo d of None \<Rightarrow> 0 | Some off \<Rightarrow> off * 60000000)"

definition day_us :: int where
  "day_us = 86400000000"

subsection \<open>Concrete inputs\<close>

text \<open>
  A world where nothing is set and nothing answers: no environment variable, no
  match for any city, no connection to either server, an empty working directory,
  \<open>pyhdf\<close> installed.
\<close>

definition quiet_world :: world where
  "quiet_world =
     \<lparr>env = Map.empty, now_utc = datetime_utc 2024 3 10, nominatim = (\<lambda>_. None),
      cmr = (\<lambda>_. SearchFailed), earthdata = (\<lambda>_ _. DownloadFailed),
      fs = Map.empty, pyhdf = True, calls = []\<rparr>"

text \<open>
  An HDF4 file with the three datasets: the AOD dataset, and the latitudes and
  longitudes of its cells.
\<close>

definition grid_sd :: "sds \<Rightarrow> float list \<Rightarrow> float list \<Rightarrow> sd" where
  "grid_sd aod_ds lats lons =
     [''Optical_Depth_Land_And_Ocean'' \<mapsto> aod_ds,
      ''Latitude'' \<mapsto>
        \<lparr>sds_cells = \<lparr>shape = shape (sds_cells aod_ds), cells = lats\<rparr>,
         sds_attributes = Map.empty\<rparr>,
      ''Longitude'' \<mapsto>
        \<lparr>sds_cells = \<lparr>shape = shape (sds_cells aod_ds), cells = lons\<rparr>,
         sds_attributes = Map.empty\<rparr>]"

definition world_with_file :: "path \<Rightarrow> sd \<Rightarrow> world" where
  "world_with_file p hdf = quiet_world\<lparr>fs := [resolve p \<mapsto> File (Hdf hdf)]\<rparr>"

text \<open>
  One row of two cells at latitudes 0 and 1 on longitude 0. The first cell holds the
  fill value -9999, the second the value 5; the values are stored unscaled.
\<close>

definition two_cells_aod :: sds where
  "two_cells_aod =
     \<lparr>sds_cells = \<lparr>shape = (1, 2), cells = [Fin (- 9999), Fin 5]\<rparr>,
      sds_attributes = [''_FillValue'' \<mapsto> - 9999]\<rparr>"

definition two_cells :: sd where
  "two_cells = grid_sd two_cells_aod [Fin 0, Fin 1] [Fin 0, Fin 0]"

text \<open>
  The attributes of the MODIS product: values stored in thousandths, -9999 for a
  cell without a measurement.
\<close>

definition modis_attrs :: "string \<rightharpoonup> real" where
  "modis_attrs = [''scale_factor'' \<mapsto> 1 / 1000, ''add_offset'' \<mapsto> 0, ''_FillValue'' \<mapsto> - 9999]"

text \<open>A grid of one cell, which holds the fill value.\<close>

definition all_fill :: sd where
  "all_fill =
     grid_sd \<lparr>sds_cells = \<lparr>shape = (1, 1), cells = [Fin (- 9999)]\<rparr>,
              sds_attributes = modis_attrs\<rparr> [Fin 0] [Fin 0]"

text \<open>An AOD dataset of two cells: the fill value, and the stored value 150.\<close>

definition fill_and_value :: sds where
  "fill_and_value =
     \<lparr>sds_cells = \<lparr>shape = (1, 2), cells = [Fin (- 9999), Fin 150]\<rparr>,
      sds_attributes = modis_attrs\<rparr>"


text \<open>Two links of an entry: its metadata and its raster file.\<close>

definition xml_link :: link where
  "xml_link = [''href'' \<mapsto> ''https://example.org/g/file.xml'']"

definition hdf_link :: link where
  "hdf_link = [''href'' \<mapsto> ''https://example.org/g/file.hdf'']"

text \<open>A world whose download server gives one answer to every request.\<close>

definition answering :: "download_response \<Rightarrow> world" where
  "answering r = quiet_world\<lparr>earthdata := (\<lambda>_ _. r)\<rparr>"

definition granule_url :: string where
  "granule_url = ''https://example.org/g/file.hdf?token=1''"



text \<open>
  The date 2024-03-10 as a naive datetime at midnight, and 23:00 of that day in a
  zone five hours behind UTC, which is 04:00 of the next day in UTC.
\<close>

definition march_10 :: datetime where
  "march_10 =
     \<lparr>year = 2024, month = 3, day = 10, hour = 0, minute = 0, second = 0,
      microsecond = 0, tzinfo = None\<rparr>"

definition march_10_evening_west :: datetime where
  "march_10_evening_west =
     \<lparr>year = 2024, month = 3, day = 10, hour = 23, minute = 0, second = 0,
      microsecond = 0, tzinfo = Some (- 300)\<rparr>"

text \<open>The last day a datetime can hold.\<close>

definition last_day :: datetime where
  "last_day =
     \<lparr>year = 9999, month = 12, day = 31, hour = 12, minute = 0, second = 0,
      microsecond = 0, tzinfo = None\<rparr>"

section \<open>Lemmas about the library functions\<close>

subsection \<open>Splitting strings\<close>

lemma split_on_nonempty: "split_on c s \<noteq> []"
  by (induction s) (auto split: list.splits)

lemma hd_split_on: "hd (split_on c s) = takeWhile (\<lambda>x. x \<noteq> c) s"
  by (induction s) (auto split: list.splits simp: split_on_nonempty)

lemma split_on_no_sep: "p \<in> set (split_on c s) \<Longrightarrow> c \<notin> set p"
  by (induction s arbitrary: p) (auto split: list.splits if_splits)

lemma split_on_single: "split_on c s = [y] \<Longrightarrow> s = y"
  by (induction s arbitrary: y) (auto split: list.splits if_splits simp: split_on_nonempty)

lemma split_on_none: "c \<notin> set s \<Longrightarrow> split_on c s = [s]"
  by (induction s) auto

lemma last_split_on: "\<exists>pre. s = pre @ last (split_on c s) \<and> (pre = [] \<or> last pre = c)"
proof (induction s)
  case Nil
  then show ?case by simp
next
  case (Cons x xs)
  then obtain pre where pre: "xs = pre @ last (split_on c xs)" "pre = [] \<or> last pre = c" by blast
  show ?case
  proof (cases "x = c")
    case True
    have "x # xs = (x # pre) @ last (split_on c (x # xs))" using pre True by (simp add: split_on_nonempty)
    moreover have "last (x # pre) = c" using pre True by auto
    ultimately show ?thesis by blast
  next
    case False
    obtain y ys where y: "split_on c xs = y # ys" using split_on_nonempty[of c xs] by (cases "split_on c xs") auto
    show ?thesis
    proof (cases ys)
      case Nil
      then have "xs = y" using y split_on_single by blast
      then show ?thesis using False y Nil by simp
    next
      case (Cons z zs)
      then have l: "last (split_on c (x # xs)) = last (split_on c xs)" using False y by simp
      have "pre \<noteq> []"
      proof
        assume "pre = []"
        then have "xs = last (split_on c xs)" using pre by simp
        moreover have "last (split_on c xs) \<in> set (split_on c xs)" by (simp add: split_on_nonempty)
        ultimately have "c \<notin> set xs" using split_on_no_sep by metis
        then show False using split_on_none[of c xs] y Cons by simp
      qed
      then have "x # xs = (x # pre) @ last (split_on c (x # xs)) \<and> last (x # pre) = c"
        using pre l by auto
      then show ?thesis by blast
    qed
  qed
qed

subsection \<open>Arrays\<close>










lemma shape_masked_aod [simp]: "shape (masked_aod d) = shape (sds_cells d)"
  by (simp add: masked_aod_def apply_scale_def mask_fill_def Let_def split: option.splits)

lemma length_masked_aod [simp]: "length (cells (masked_aod d)) = length (cells (sds_cells d))"
  by (simp add: masked_aod_def apply_scale_def mask_fill_def Let_def split: option.splits)


lemma sq_diff_props [simp]:
  "shape (sq_diff a t) = shape a" "length (cells (sq_diff a t)) = length (cells a)"
  "wf_ndarray (sq_diff a t) = wf_ndarray a"
  by (simp_all add: sq_diff_def wf_ndarray_def)



section \<open>The time window\<close>

text \<open>
  One more day is one more ordinal: the step of the Gregorian calendar that
  \<open>add_one_day\<close> takes agrees with the day count of \<open>toordinal\<close>.
\<close>

lemma leap_step:
  "Suc z div 4 - Suc z div 100 + Suc z div 400 =
     z div 4 - z div 100 + z div 400 + (if is_leap (Suc z) then 1 else 0)"
proof -
  let ?a = "z div 4" and ?b = "z div 100" and ?c = "z div 400"
  have le: "?b \<le> ?a" by (rule div_le_mono2) simp_all
  have i1: "Suc z mod 4 = 0" if "Suc z mod 100 = 0"
    using mod_mod_cancel[of 4 100 "Suc z"] that by simp
  have i2: "Suc z mod 100 = 0" if "Suc z mod 400 = 0"
    using mod_mod_cancel[of 100 400 "Suc z"] that by simp
  have f1: "(a + 1) - (b + 1) + (c + 1) = a - b + c + 1"
    and f2: "(a + 1) - (b + 1) + c = a - b + c + 0"
    and f3: "(a + 1) - b + c = a - b + c + 1" if "b \<le> a" for a b c :: nat
    using that by arith+
  consider (none) "Suc z mod 4 \<noteq> 0"
    | (four) "Suc z mod 4 = 0" "Suc z mod 100 \<noteq> 0"
    | (hundred) "Suc z mod 100 = 0" "Suc z mod 400 \<noteq> 0"
    | (fourhundred) "Suc z mod 400 = 0"
    by blast
  then show ?thesis
  proof cases
    case none
    then have n100: "Suc z mod 100 \<noteq> 0" using i1 by metis
    then have n400: "Suc z mod 400 \<noteq> 0" using i2 by metis
    note n = n100 n400
    have "Suc z div 4 = ?a" "Suc z div 100 = ?b" "Suc z div 400 = ?c" "is_leap (Suc z) = False"
      using none n by (simp_all add: div_Suc is_leap_def)
    then show ?thesis by (simp only: if_False add_0_right)
  next
    case four
    then have n: "Suc z mod 400 \<noteq> 0" using i2 by metis
    have "Suc z div 4 = ?a + 1" "Suc z div 100 = ?b" "Suc z div 400 = ?c" "is_leap (Suc z) = True"
      using four n by (simp_all add: div_Suc is_leap_def)
    then show ?thesis by (simp only: if_True f3[OF le])
  next
    case hundred
    then have m: "Suc z mod 4 = 0" using i1 by metis
    have "Suc z div 4 = ?a + 1" "Suc z div 100 = ?b + 1" "Suc z div 400 = ?c" "is_leap (Suc z) = False"
      using hundred m by (simp_all add: div_Suc is_leap_def)
    then show ?thesis by (simp only: if_False f2[OF le])
  next
    case fourhundred
    then have m100: "Suc z mod 100 = 0" using i2 by metis
    then have m4: "Suc z mod 4 = 0" using i1 by metis
    note m = m100 m4
    have "Suc z div 4 = ?a + 1" "Suc z div 100 = ?b + 1" "Suc z div 400 = ?c + 1" "is_leap (Suc z) = True"
      using fourhundred m by (simp_all add: div_Suc is_leap_def)
    then show ?thesis by (simp only: if_True f1[OF le])
  qed
qed

lemma days_before_year_Suc:
  assumes "1 \<le> y"
  shows "days_before_year (Suc y) = days_before_year y + 365 + (if is_leap y then 1 else 0)"
proof -
  obtain z where z: "y = Suc z" using assms by (cases y) auto
  have le: "z div 100 \<le> z div 4" and le': "Suc z div 100 \<le> Suc z div 4"
    by (rule div_le_mono2, simp_all)+
  have lin: "K + a' - b' + c' = K0 + a - b + c + 365 + l"
    if "b \<le> a" "b' \<le> a'" "a' - b' + c' = a - b + c + l" "K = K0 + 365"
    for K K0 a b c a' b' c' l :: nat
    using that by arith
  have k: "Suc z * 365 = z * 365 + 365" by simp
  have main: "Suc z * 365 + Suc z div 4 - Suc z div 100 + Suc z div 400 =
        z * 365 + z div 4 - z div 100 + z div 400 + 365 + (if is_leap (Suc z) then 1 else 0)"
    by (rule lin[OF le le' leap_step[of z] k])
  have "days_before_year (Suc (Suc z)) = Suc z * 365 + Suc z div 4 - Suc z div 100 + Suc z div 400"
    by (simp only: days_before_year_def Let_def diff_Suc_1)
  moreover have "days_before_year (Suc z) = z * 365 + z div 4 - z div 100 + z div 400"
    by (simp only: days_before_year_def Let_def diff_Suc_1)
  ultimately show ?thesis using main by (simp only: z)
qed

lemma month_cases:
  "1 \<le> m \<Longrightarrow> m < 12 \<Longrightarrow> m = 1 \<or> m = 2 \<or> m = 3 \<or> m = 4 \<or> m = 5 \<or> m = 6 \<or> m = 7 \<or> m = 8 \<or> m = 9 \<or> m = 10 \<or> m = (11::nat)"
  by presburger

lemma days_before_month_Suc:
  assumes "1 \<le> m" "m < 12"
  shows "days_before_month y (Suc m) = days_before_month y m + days_in_month y m"
  using month_cases[OF assms]
  by (elim disjE) (simp_all add: days_before_month_def days_in_month_def eval_nat_numeral)

lemma toordinal_add_one_day:
  assumes "1 \<le> year d" "1 \<le> month d" "month d \<le> 12" "1 \<le> day d"
    "day d \<le> days_in_month (year d) (month d)" "add_one_day d = Inr d'"
  shows "toordinal d' = toordinal d + 1"
proof -
  consider (same_month) "day d < days_in_month (year d) (month d)"
    | (next_month) "day d = days_in_month (year d) (month d)" "month d < 12"
    | (next_year) "day d = days_in_month (year d) (month d)" "month d = 12" "year d < 9999"
    using assms by (fastforce simp: add_one_day_def split: if_splits)
  then show ?thesis
  proof cases
    case same_month
    then have "d' = d\<lparr>day := day d + 1\<rparr>" using assms(6) by (simp add: add_one_day_def)
    then show ?thesis by (simp add: toordinal_def)
  next
    case next_month
    then have "d' = d\<lparr>month := month d + 1, day := 1\<rparr>"
      using assms(6) by (simp add: add_one_day_def)
    then show ?thesis
      using days_before_month_Suc[OF assms(2) next_month(2), of "year d"] next_month(1)
      by (simp add: toordinal_def)
  next
    case next_year
    then have d': "d' = d\<lparr>year := year d + 1, month := 1, day := 1\<rparr>"
      using assms(6) by (simp add: add_one_day_def)
    have "day d = 31" using next_year by (simp add: days_in_month_def)
    then show ?thesis
      using days_before_year_Suc[OF assms(1)] next_year(2)
      by (simp add: d' toordinal_def days_before_month_def)
  qed
qed

lemma add_one_day_fields:
  assumes "add_one_day d = Inr d'"
  shows "hour d' = hour d \<and> minute d' = minute d \<and> second d' = second d \<and>
         microsecond d' = microsecond d \<and> tzinfo d' = tzinfo d"
  using assms by (auto simp: add_one_day_def split: if_splits)

lemma add_one_day_defined:
  assumes "year d < 9999 \<or> month d < 12 \<or> day d < 31"
    and "day d \<le> days_in_month (year d) (month d)" "month d \<le> 12"
  shows "\<exists>d'. add_one_day d = Inr d'"
proof -
  have "days_in_month (year d) 12 = 31" by (simp add: days_in_month_def)
  then show ?thesis using assms by (auto simp: add_one_day_def)
qed

lemma window_bounds_day:
  assumes "valid_datetime d" and "year d < 9999 \<or> month d < 12 \<or> day d < 31"
  obtains e where "window_bounds (Some d) now = Inr (datetime_utc (year d) (month d) (day d), e)"
    "add_one_day (datetime_utc (year d) (month d) (day d)) = Inr e"
    "hour e = 0" "minute e = 0" "second e = 0" "microsecond e = 0" "tzinfo e = Some 0"
    "instant e = instant (datetime_utc (year d) (month d) (day d)) + day_us"
    "instant (datetime_utc (year d) (month d) (day d)) \<le> instant d + utcoffset_us d"
    "instant d + utcoffset_us d < instant e"
proof -
  let ?s = "datetime_utc (year d) (month d) (day d)"
  have v: "1 \<le> year d" "1 \<le> month d" "month d \<le> 12" "1 \<le> day d"
    "day d \<le> days_in_month (year d) (month d)"
    "hour d < 24" "minute d < 60" "second d < 60" "microsecond d < 1000000"
    using assms(1) by (simp_all add: valid_datetime_def)
  have sf: "year ?s = year d" "month ?s = month d" "day ?s = day d" "hour ?s = 0" "minute ?s = 0"
    "second ?s = 0" "microsecond ?s = 0" "tzinfo ?s = Some 0"
    by (simp_all add: datetime_utc_def)
  obtain e where e: "add_one_day ?s = Inr e"
    using add_one_day_defined[of ?s] assms(2) v by (auto simp: sf)
  have ord: "toordinal e = toordinal ?s + 1"
    using toordinal_add_one_day[of ?s e] v e by (simp add: sf)
  have ef: "hour e = 0" "minute e = 0" "second e = 0" "microsecond e = 0" "tzinfo e = Some 0"
    using add_one_day_fields[OF e] by (simp_all add: sf)
  have os: "toordinal ?s = toordinal d" by (simp add: toordinal_def sf)
  have i_s: "instant ?s = int (toordinal d) * day_us"
    by (simp add: instant_def sf os day_us_def)
  have i_e: "instant e = int (toordinal d) * day_us + day_us"
    by (simp add: instant_def ef ord os day_us_def algebra_simps)
  have loc: "instant d + utcoffset_us d =
      int (toordinal d) * day_us + ((int (hour d) * 60 + int (minute d)) * 60 + int (second d)) * 1000000
        + int (microsecond d)"
    by (simp add: instant_def utcoffset_us_def day_us_def algebra_simps split: option.splits)
  have lo: "0 \<le> ((int (hour d) * 60 + int (minute d)) * 60 + int (second d)) * 1000000 + int (microsecond d)"
    by simp
  have "int (hour d) \<le> 23" "int (minute d) \<le> 59" "int (second d) \<le> 59" "int (microsecond d) \<le> 999999"
    using v by simp_all
  then have hi: "((int (hour d) * 60 + int (minute d)) * 60 + int (second d)) * 1000000 + int (microsecond d) < day_us"
  proof -
    assume b: "int (hour d) \<le> 23" "int (minute d) \<le> 59" "int (second d) \<le> 59"
      "int (microsecond d) \<le> 999999"
    define hm where "hm = int (hour d) * 60 + int (minute d)"
    define hms where "hms = hm * 60 + int (second d)"
    have "hm \<le> 1439" unfolding hm_def using b by linarith
    then have "hms \<le> 86399" unfolding hms_def using b by linarith
    then have "hms * 1000000 + int (microsecond d) < 86400000000" using b by linarith
    then show ?thesis unfolding hms_def hm_def day_us_def .
  qed
  have wb: "window_bounds (Some d) now = Inr (?s, e)"
    using e by (simp add: window_bounds_def Let_def)
  show thesis
    using that[OF wb e ef] i_s i_e loc lo hi by simp
qed

text \<open>
  Claim C9 says that the window is the UTC calendar day that contains the requested
  date. The code builds the window from the year, month and day of the date as they
  stand and never looks at its time zone. \<open>march_10_evening_west\<close> is 23:00 on
  2024-03-10 five hours behind UTC, that is 04:00 on 2024-03-11 in UTC: its window is
  2024-03-10, which ends before it. And on the last day of year 9999 the end of the
  window cannot be built: \<open>OverflowError\<close>.
\<close>

theorem time_window_ignores_time_zone:
  "window_bounds (Some march_10_evening_west) (datetime_utc 2024 7 1) =
     Inr (datetime_utc 2024 3 10, datetime_utc 2024 3 11) \<and>
   instant (datetime_utc 2024 3 11) \<le> instant march_10_evening_west \<and>
   window_bounds (Some last_day) (datetime_utc 2024 7 1) = Inl OverflowError"
  by (simp add: window_bounds_def march_10_evening_west_def last_day_def datetime_utc_def add_one_day_def
      days_in_month_def instant_def toordinal_def days_before_year_def days_before_month_def
      is_leap_def Let_def)

text \<open>
  Claim C9, amended. For a date before the last day of year 9999, the window starts
  at midnight UTC of the calendar day that the year, month and day of the date name,
  and ends one day later, at midnight UTC of the next calendar day; the local time
  of the date lies in it. For a date that is naive or in UTC, this is the UTC
  calendar day containing the date. With no date, the window is the one of the
  current UTC time.
\<close>

theorem time_window_is_calendar_day:
  assumes "valid_datetime d" and "year d < 9999 \<or> month d < 12 \<or> day d < 31"
  shows "\<exists>s e. window_bounds (Some d) now = Inr (s, e) \<and>
     time_window (Some d) now = Inr (isoformat s @ '','' @ isoformat e) \<and>
     window_bounds None d = Inr (s, e) \<and>
     s = datetime_utc (year d) (month d) (day d) \<and> add_one_day s = Inr e \<and>
     hour e = 0 \<and> minute e = 0 \<and> second e = 0 \<and> microsecond e = 0 \<and> tzinfo e = Some 0 \<and>
     instant e = instant s + day_us \<and>
     instant s \<le> instant d + utcoffset_us d \<and> instant d + utcoffset_us d < instant e \<and>
     (tzinfo d = None \<or> tzinfo d = Some 0 \<longrightarrow> instant s \<le> instant d \<and> instant d < instant e)"
proof -
  let ?s = "datetime_utc (year d) (month d) (day d)"
  from window_bounds_day[OF assms, of now] obtain e where
    e: "window_bounds (Some d) now = Inr (?s, e)" "add_one_day ?s = Inr e"
    "hour e = 0" "minute e = 0" "second e = 0" "microsecond e = 0" "tzinfo e = Some 0"
    "instant e = instant ?s + day_us"
    "instant ?s \<le> instant d + utcoffset_us d" "instant d + utcoffset_us d < instant e"
    by blast
  have tw: "time_window (Some d) now = Inr (isoformat ?s @ '','' @ isoformat e)"
    using e(1) by (simp add: time_window_def)
  have none: "window_bounds None d = Inr (?s, e)"
    using e(2) by (simp add: window_bounds_def Let_def)
  have utc: "tzinfo d = None \<or> tzinfo d = Some 0 \<longrightarrow> instant ?s \<le> instant d \<and> instant d < instant e"
    using e(9,10) by (auto simp: utcoffset_us_def)
  show ?thesis using e tw none utc by blast
qed

text \<open>The window of the date 2024-03-10, whatever the current time.\<close>

theorem time_window_is_calendar_day_witness:
  "time_window (Some march_10) (datetime_utc 2024 7 1) =
     Inr ''2024-03-10T00:00:00+00:00,2024-03-11T00:00:00+00:00''"
proof -
  have v: "valid_datetime march_10"
    by (simp add: valid_datetime_def march_10_def days_in_month_def)
  have h: "year march_10 < 9999 \<or> month march_10 < 12 \<or> day march_10 < 31"
    by (simp add: march_10_def)
  from time_window_is_calendar_day[OF v h, of "datetime_utc 2024 7 1"] obtain s e where
    se: "time_window (Some march_10) (datetime_utc 2024 7 1) = Inr (isoformat s @ '','' @ isoformat e)"
    "s = datetime_utc (year march_10) (month march_10) (day march_10)" "add_one_day s = Inr e"
    by blast
  have s: "s = datetime_utc 2024 3 10" using se(2) by (simp add: march_10_def)
  have e: "e = datetime_utc 2024 3 11"
    using se(3) unfolding s by (simp add: add_one_day_def datetime_utc_def days_in_month_def)
  show ?thesis unfolding se(1) s e
    by (simp add: isoformat_def datetime_utc_def pad2_def pad4_def digit_def)
qed

section \<open>The raster extractor\<close>








text \<open>
  Claim C2 says that a grid whose every raw value is the fill value fails with the
  missing-data error, and that no value derived from a fill cell is ever returned.
  The code compares the scaled values with the raw fill value. In \<open>all_fill\<close>, with
  the attributes of the MODIS product (\<open>scale_factor\<close> 0.001, \<open>_FillValue\<close> -9999),
  the one cell holds -9999: scaled it is -9.999, which is not -9999, so it is not
  masked and -9.999 is returned.
\<close>

theorem fill_cells_returned:
  "read_aod_from_hdf (world_with_file [''g.hdf''] all_fill) [''g.hdf''] 0 0 = Inr (- 9999 / 1000)"
  by code_simp

text \<open>
  Claim C3 says that exactly the cells whose raw value is the fill value are marked
  missing, for every scale and offset. In \<open>fill_and_value\<close> the first raw value is the
  fill value -9999 and the scale is 0.001: after line 133 the cell holds -9.999 and
  is not marked.
\<close>

theorem fill_not_masked_after_scaling:
  "cells (sds_cells fill_and_value) = [Fin (- 9999), Fin 150] \<and>
   sds_attributes fill_and_value ''_FillValue'' = Some (- 9999) \<and>
   cells (masked_aod fill_and_value) = [Fin (- 9999 / 1000), Fin (3 / 20)]"
  by code_simp







section \<open>The granule locator\<close>

lemma first_hdf_found:
  "\<forall>x\<in>set pre. \<not> is_hdf_link x \<Longrightarrow> is_hdf_link l \<Longrightarrow> first_hdf (pre @ l # post) = href_of l"
  by (induction pre) (simp_all add: is_hdf_link_def href_of_def)

lemma first_hdf_none: "\<forall>x\<in>set ls. \<not> is_hdf_link x \<Longrightarrow> first_hdf ls = []"
  by (induction ls) (simp_all add: is_hdf_link_def)

lemma first_data_found:
  "\<forall>x\<in>set pre. \<not> is_data_link x \<Longrightarrow> is_data_link l \<Longrightarrow> first_data (pre @ l # post) = href_of l"
  by (induction pre) (simp_all add: is_data_link_def href_of_def)

lemma first_data_none: "\<forall>x\<in>set ls. \<not> is_data_link x \<Longrightarrow> first_data ls = []"
  by (induction ls) (simp_all add: is_data_link_def)

lemma hdf_href_nonempty: "is_hdf_link l \<Longrightarrow> href_of l \<noteq> []"
  by (auto simp: is_hdf_link_def href_of_def endswith_def)

lemma search_granule_top_entry:
  assumes "time_window dt (now_utc w) = Inr tw"
    and "cmr w \<lparr>short_name = SHORT_NAME, temporal = tw,
                 bounding_box = (lon - 1 / 2, lat - 1 / 2, lon + 1 / 2, lat + 1 / 2),
                 page_size = 1, sort_key = ''-start_date''\<rparr> = SearchResponse st (Some (e # es))"
    and "st < 400 \<or> 600 \<le> st"
  shows "fst (search_granule w lat lon dt) = granule_of_entry e"
  using assms by (auto simp: search_granule_def Let_def raise_for_status_def)

text \<open>
  Claim C7. From the links of an entry, the URL of the first link whose \<open>href\<close> ends
  in \<open>.hdf\<close> is chosen. When no link is such a link, the first link whose \<open>rel\<close> ends
  in \<open>/data#\<close> is chosen, and the search fails when that link has no URL. When no
  link passes either test, the search fails with the error about the missing link.
  \<open>search_granule\<close> applies this to the first entry of the answer.
\<close>

theorem link_selection:
  assumes "links e = Some ls"
  shows "(ls = pre @ l # post \<and> (\<forall>x\<in>set pre. \<not> is_hdf_link x) \<and> is_hdf_link l \<longrightarrow>
            map_sum id download_url (granule_of_entry e) = Inr (href_of l)) \<and>
         ((\<forall>x\<in>set ls. \<not> is_hdf_link x) \<and> ls = pre @ l # post \<and>
          (\<forall>x\<in>set pre. \<not> is_data_link x) \<and> is_data_link l \<longrightarrow>
            map_sum id download_url (granule_of_entry e) =
              (if href_of l = [] then Inl (ModisLiveError no_link_msg) else Inr (href_of l))) \<and>
         ((\<forall>x\<in>set ls. \<not> is_hdf_link x \<and> \<not> is_data_link x) \<longrightarrow>
            granule_of_entry e = Inl (ModisLiveError no_link_msg)) \<and>
         (time_window dt (now_utc w) = Inr tw \<and>
          cmr w \<lparr>short_name = SHORT_NAME, temporal = tw,
                  bounding_box = (lon - 1 / 2, lat - 1 / 2, lon + 1 / 2, lat + 1 / 2),
                  page_size = 1, sort_key = ''-start_date''\<rparr> = SearchResponse st (Some (e # es)) \<and>
          (st < 400 \<or> 600 \<le> st) \<longrightarrow>
            fst (search_granule w lat lon dt) = granule_of_entry e)"
proof (intro conjI impI)
  assume a: "ls = pre @ l # post \<and> (\<forall>x\<in>set pre. \<not> is_hdf_link x) \<and> is_hdf_link l"
  then have "first_hdf ls = href_of l" using first_hdf_found by blast
  moreover have "href_of l \<noteq> []" using a hdf_href_nonempty by blast
  ultimately show "map_sum id download_url (granule_of_entry e) = Inr (href_of l)"
    using assms by (simp add: granule_of_entry_def Let_def)
next
  assume a: "(\<forall>x\<in>set ls. \<not> is_hdf_link x) \<and> ls = pre @ l # post \<and>
          (\<forall>x\<in>set pre. \<not> is_data_link x) \<and> is_data_link l"
  then have "first_hdf ls = []" using first_hdf_none by blast
  moreover have "first_data ls = href_of l" using a first_data_found by blast
  ultimately show "map_sum id download_url (granule_of_entry e) =
              (if href_of l = [] then Inl (ModisLiveError no_link_msg) else Inr (href_of l))"
    using assms by (simp add: granule_of_entry_def Let_def no_link_msg_def)
next
  assume a: "\<forall>x\<in>set ls. \<not> is_hdf_link x \<and> \<not> is_data_link x"
  then have "first_hdf ls = []" "first_data ls = []"
    using first_hdf_none first_data_none by blast+
  then show "granule_of_entry e = Inl (ModisLiveError no_link_msg)"
    using assms by (simp add: granule_of_entry_def Let_def no_link_msg_def)
next
  assume "time_window dt (now_utc w) = Inr tw \<and>
          cmr w \<lparr>short_name = SHORT_NAME, temporal = tw,
                  bounding_box = (lon - 1 / 2, lat - 1 / 2, lon + 1 / 2, lat + 1 / 2),
                  page_size = 1, sort_key = ''-start_date''\<rparr> = SearchResponse st (Some (e # es)) \<and>
          (st < 400 \<or> 600 \<le> st)"
  then show "fst (search_granule w lat lon dt) = granule_of_entry e"
    using search_granule_top_entry by blast
qed

text \<open>
  The links \<open>file.xml\<close> and \<open>file.hdf\<close>: the \<open>.hdf\<close> link is chosen in either order.
\<close>

theorem link_selection_witness:
  "map_sum id download_url
     (granule_of_entry \<lparr>title = Some ''g'', time_start = None, links = Some [xml_link, hdf_link]\<rparr>)
     = Inr ''https://example.org/g/file.hdf'' \<and>
   map_sum id download_url
     (granule_of_entry \<lparr>title = Some ''g'', time_start = None, links = Some [hdf_link, xml_link]\<rparr>)
     = Inr ''https://example.org/g/file.hdf''"
proof -
  have x: "\<not> is_hdf_link xml_link" and h: "is_hdf_link hdf_link"
    and u: "href_of hdf_link = ''https://example.org/g/file.hdf''"
    by (simp_all add: is_hdf_link_def xml_link_def hdf_link_def dict_get_def endswith_def href_of_def)
  have 1: "map_sum id download_url
     (granule_of_entry \<lparr>title = Some ''g'', time_start = None, links = Some [xml_link, hdf_link]\<rparr>)
     = Inr (href_of hdf_link)"
    using link_selection[of "\<lparr>title = Some ''g'', time_start = None, links = Some [xml_link, hdf_link]\<rparr>"
        "[xml_link, hdf_link]" "[xml_link]" hdf_link "[]"] x h
    by simp
  have 2: "map_sum id download_url
     (granule_of_entry \<lparr>title = Some ''g'', time_start = None, links = Some [hdf_link, xml_link]\<rparr>)
     = Inr (href_of hdf_link)"
    using link_selection[of "\<lparr>title = Some ''g'', time_start = None, links = Some [hdf_link, xml_link]\<rparr>"
        "[hdf_link, xml_link]" "[]" hdf_link "[xml_link]"] x h
    by simp
  show ?thesis using 1 2 u by simp
qed

section \<open>The cached downloader\<close>

text \<open>
  \<open>download_granule\<close> with its \<open>let\<close>s unfolded: the cache directory is made, a cached
  file is returned at once, and otherwise one request is sent and recorded.
\<close>

lemma resolve_CACHE_DIR [simp]: "resolve CACHE_DIR = CACHE_DIR"
  by (simp add: resolve_def CACHE_DIR_def)

lemma resolve_cache_child:
  "resolve (CACHE_DIR @ [name]) = (if name = ''..'' then [''data''] else CACHE_DIR @ [name])"
  by (simp add: resolve_def CACHE_DIR_def)

lemma mkdir_cache_result:
  assumes "mkdir_parents CACHE_DIR g = Inr f"
  shows "f [''data''] = Some Dir \<and> f CACHE_DIR = Some Dir \<and>
         (\<forall>p. p \<noteq> [''data''] \<and> p \<noteq> CACHE_DIR \<longrightarrow> f p = g p)"
  using assms
  by (auto simp: mkdir_parents_def CACHE_DIR_def resolve_def
      split: option.splits node.splits if_splits)

lemma mkdir_cache_idem:
  assumes "f [''data''] = Some Dir" "f CACHE_DIR = Some Dir"
  shows "mkdir_parents CACHE_DIR f = Inr f"
  using assms by (simp add: mkdir_parents_def CACHE_DIR_def resolve_def)

lemma download_granule_unfold:
  "download_granule w url auth =
     (case mkdir_parents CACHE_DIR (fs w) of
        Inl e \<Rightarrow> (Inl e, w)
      | Inr f \<Rightarrow>
          if path_exists f (cache_path url) then (Inr (cache_path url), w\<lparr>fs := f\<rparr>)
          else
            (case earthdata w url auth of
               DownloadFailed \<Rightarrow>
                 (Inl RequestException, w\<lparr>fs := f, calls := calls w @ [DownloadCall url auth]\<rparr>)
             | DownloadResponse st body \<Rightarrow>
                 if st = 401
                 then (Inl (ModisLiveError auth_msg), w\<lparr>fs := f, calls := calls w @ [DownloadCall url auth]\<rparr>)
                 else if 400 \<le> st \<and> st < 600
                 then (Inl (HTTPError st), w\<lparr>fs := f, calls := calls w @ [DownloadCall url auth]\<rparr>)
                 else (Inr (cache_path url),
                       w\<lparr>fs := f(resolve (cache_path url) \<mapsto> File body),
                         calls := calls w @ [DownloadCall url auth]\<rparr>)
             | DownloadTruncated st body \<Rightarrow>
                 if st = 401
                 then (Inl (ModisLiveError auth_msg), w\<lparr>fs := f, calls := calls w @ [DownloadCall url auth]\<rparr>)
                 else if 400 \<le> st \<and> st < 600
                 then (Inl (HTTPError st), w\<lparr>fs := f, calls := calls w @ [DownloadCall url auth]\<rparr>)
                 else (Inl RequestException,
                       w\<lparr>fs := f(resolve (cache_path url) \<mapsto> File body),
                         calls := calls w @ [DownloadCall url auth]\<rparr>)))"
  by (auto simp: download_granule_def Let_def cache_path_def cache_key_def auth_msg_def
      raise_for_status_def split: sum.splits download_response.splits)

lemma cache_key_shape:
  "CHR ''/'' \<notin> set (cache_key url) \<and> CHR ''?'' \<notin> set (cache_key url) \<and>
   (\<exists>pre rest. url = pre @ cache_key url @ rest \<and> (pre = [] \<or> last pre = CHR ''/'') \<and>
      (rest = [] \<or> hd rest = CHR ''?'') \<and> CHR ''?'' \<notin> set pre)"
proof -
  let ?base = "hd (split_on CHR ''?'' url)"
  let ?rest = "dropWhile (\<lambda>x. x \<noteq> CHR ''?'') url"
  have base: "?base = takeWhile (\<lambda>x. x \<noteq> CHR ''?'') url" by (rule hd_split_on)
  have q: "CHR ''?'' \<notin> set ?base" unfolding base by (auto dest: set_takeWhileD)
  have url: "url = ?base @ ?rest" unfolding base by simp
  have rest: "?rest = [] \<or> hd ?rest = CHR ''?''"
    using hd_dropWhile[of "\<lambda>x. x \<noteq> CHR ''?''" url] by auto
  obtain pre where pre: "?base = pre @ cache_key url" "pre = [] \<or> last pre = CHR ''/''"
    using last_split_on[of ?base "CHR ''/''"] unfolding cache_key_def by blast
  have "cache_key url \<in> set (split_on CHR ''/'' ?base)"
    unfolding cache_key_def by (simp add: split_on_nonempty)
  then have slash: "CHR ''/'' \<notin> set (cache_key url)" by (rule split_on_no_sep)
  have "url = pre @ cache_key url @ ?rest" using url pre(1) by simp
  moreover have "CHR ''?'' \<notin> set pre" "CHR ''?'' \<notin> set (cache_key url)" using q pre(1) by auto
  ultimately show ?thesis using slash pre(2) rest by blast
qed

lemma cached_hit:
  assumes "mkdir_parents CACHE_DIR (fs w) = Inr f" "path_exists f (cache_path url)"
  shows "download_granule w url auth = (Inr (cache_path url), w\<lparr>fs := f\<rparr>)"
  using assms by (simp add: download_granule_unfold)

lemma cache_path_cases:
  "cache_path url = CACHE_DIR \<or> cache_path url = CACHE_DIR @ [cache_key url]"
  by (simp add: cache_path_def path_join_def)

lemma download_again:
  assumes "fst (download_granule w url auth) = Inr p"
  shows "download_granule (snd (download_granule w url auth)) url auth' =
           (Inr p, snd (download_granule w url auth))"
proof -
  obtain f where f: "mkdir_parents CACHE_DIR (fs w) = Inr f"
    using assms by (cases "mkdir_parents CACHE_DIR (fs w)") (auto simp: download_granule_unfold)
  note dirs = mkdir_cache_result[OF f]
  let ?w1 = "snd (download_granule w url auth)"
  have p: "p = cache_path url"
    using assms f by (auto simp: download_granule_unfold split: if_splits download_response.splits)
  have w1: "mkdir_parents CACHE_DIR (fs ?w1) = Inr (fs ?w1) \<and> path_exists (fs ?w1) (cache_path url)"
  proof (cases "path_exists f (cache_path url)")
    case True
    then have "fs ?w1 = f" using f by (simp add: download_granule_unfold)
    then show ?thesis using True dirs mkdir_cache_idem by simp
  next
    case False
    then have ne: "resolve (cache_path url) \<noteq> [''data'']" "resolve (cache_path url) \<noteq> CACHE_DIR"
      using dirs by (auto simp: path_exists_def)
    have "fs ?w1 = f(resolve (cache_path url) \<mapsto> File body) \<Longrightarrow> ?thesis" for body
      using ne dirs by (auto simp: path_exists_def intro!: mkdir_cache_idem)
    then show ?thesis
      using assms f False
      by (auto simp: download_granule_unfold split: if_splits download_response.splits)
  qed
  have "?w1\<lparr>fs := fs ?w1\<rparr> = ?w1" by simp
  then show ?thesis
    using cached_hit[of ?w1 "fs ?w1" url auth'] w1 p by simp
qed



text \<open>
  Claim C6. The cache key of a URL has no slash and no question mark, and the URL is
  some prefix that is empty or ends in a slash, then the key, then nothing or the
  query that starts at the first question mark. When the cache directory can be made
  and the path of the key exists, \<open>download_granule\<close> returns that path and sends
  no request. After a fetch that returned a path, a second fetch of the same URL
  returns the same path and leaves the world as it is, its calls included.
\<close>

theorem cached_download_no_network:
  "(CHR ''/'' \<notin> set (cache_key url) \<and> CHR ''?'' \<notin> set (cache_key url) \<and>
    (\<exists>pre rest. url = pre @ cache_key url @ rest \<and> (pre = [] \<or> last pre = CHR ''/'') \<and>
       (rest = [] \<or> hd rest = CHR ''?'') \<and> CHR ''?'' \<notin> set pre)) \<and>
   (mkdir_parents CACHE_DIR (fs w) = Inr f \<and> path_exists f (cache_path url) \<longrightarrow>
      fst (download_granule w url auth) = Inr (cache_path url) \<and>
      calls (snd (download_granule w url auth)) = calls w) \<and>
   (fst (download_granule w url auth) = Inr p \<longrightarrow>
      download_granule (snd (download_granule w url auth)) url auth' =
        (Inr p, snd (download_granule w url auth)))"
  using cache_key_shape[of url] cached_hit[of w f url auth] download_again[of w url auth p auth']
  by simp

text \<open>
  The first fetch of \<open>granule_url\<close> from a server that answers 200 sends one request;
  the second fetch returns the cached path and sends none.
\<close>

theorem cached_download_no_network_witness:
  "cache_key granule_url = ''file.hdf'' \<and>
   calls (snd (download_granule (answering (DownloadResponse 200 (Hdf two_cells))) granule_url (''u'', ''p'')))
     = [DownloadCall granule_url (''u'', ''p'')] \<and>
   download_granule
     (snd (download_granule (answering (DownloadResponse 200 (Hdf two_cells))) granule_url (''u'', ''p'')))
     granule_url (''u'', ''p'')
   = (Inr [''data'', ''modis_cache'', ''file.hdf''],
      snd (download_granule (answering (DownloadResponse 200 (Hdf two_cells))) granule_url (''u'', ''p'')))"
proof -
  let ?w = "answering (DownloadResponse 200 (Hdf two_cells))"
  have key: "cache_key granule_url = ''file.hdf''"
    by (simp add: cache_key_def granule_url_def)
  have mk: "mkdir_parents CACHE_DIR (fs ?w) = Inr [[''data''] \<mapsto> Dir, CACHE_DIR \<mapsto> Dir]"
    by (simp add: mkdir_parents_def resolve_def CACHE_DIR_def answering_def quiet_world_def)
  have cp: "cache_path granule_url = [''data'', ''modis_cache'', ''file.hdf'']"
    by (simp add: cache_path_def key path_join_def CACHE_DIR_def)
  have ne: "\<not> path_exists [[''data''] \<mapsto> Dir, CACHE_DIR \<mapsto> Dir] (cache_path granule_url)"
    by (simp add: cp path_exists_def resolve_def CACHE_DIR_def)
  have ne': "\<not> path_exists [[''data''] \<mapsto> Dir, CACHE_DIR \<mapsto> Dir] [''data'', ''modis_cache'', ''file.hdf'']"
    by (simp add: path_exists_def resolve_def CACHE_DIR_def)
  have ed: "earthdata ?w granule_url (''u'', ''p'') = DownloadResponse 200 (Hdf two_cells)"
    by (simp add: answering_def)
  have 1: "fst (download_granule ?w granule_url (''u'', ''p'')) = Inr [''data'', ''modis_cache'', ''file.hdf'']"
    by (simp add: download_granule_unfold mk ne' ed cp)
  have 2: "calls (snd (download_granule ?w granule_url (''u'', ''p''))) = [DownloadCall granule_url (''u'', ''p'')]"
    by (simp add: download_granule_unfold mk ne' ed cp) (simp add: answering_def quiet_world_def)
  show ?thesis
    using cached_download_no_network[of granule_url ?w _ "(''u'', ''p'')" "[''data'', ''modis_cache'', ''file.hdf'']" "(''u'', ''p'')"]
      key 1 2 by simp
qed

section \<open>The orchestrator\<close>






lemma earthdata_auth_calls [simp]: "earthdata_auth (w\<lparr>calls := cs\<rparr>) = earthdata_auth w"
  by (simp add: earthdata_auth_def)












end
